theory Spec2Isabelle
  imports Complex_Main "HOL-Library.Multiset"
begin

section \<open>JavaScript values\<close>

text \<open>
  Request bodies, LLM output and HTTP payloads are JSON. A JSON number is modelled as an
  exact rational: every finite double is a rational, and the arithmetic of the handlers
  (\<open>+\<close>, \<open>-\<close>, comparisons) is taken exactly; binary floating-point rounding is outside the model.
  An object is an association list in insertion order, as \<open>Object.entries\<close> enumerates it.
\<close>

datatype jsval =
    JUndefined
  | JNull
  | JBool bool
  | JNum rat
  | JStr string
  | JArr "jsval list"
  | JObj "(string \<times> jsval) list"

datatype jstype = TUndefined | TObject | TBoolean | TNumber | TString

fun typeof :: "jsval \<Rightarrow> jstype" where
  "typeof JUndefined = TUndefined"
| "typeof JNull = TObject"
| "typeof (JBool _) = TBoolean"
| "typeof (JNum _) = TNumber"
| "typeof (JStr _) = TString"
| "typeof (JArr _) = TObject"
| "typeof (JObj _) = TObject"

text \<open>Truthiness, as \<open>!x\<close>, \<open>x || y\<close> and \<open>if (x)\<close> test it: \<open>0\<close> and the empty string are falsy.\<close>

fun truthy :: "jsval \<Rightarrow> bool" where
  "truthy JUndefined = False"
| "truthy JNull = False"
| "truthy (JBool b) = b"
| "truthy (JNum n) = (n \<noteq> 0)"
| "truthy (JStr s) = (s \<noteq> [])"
| "truthy (JArr _) = True"
| "truthy (JObj _) = True"

fun isArray :: "jsval \<Rightarrow> bool" where
  "isArray (JArr _) = True"
| "isArray _ = False"

fun num_of :: "jsval \<Rightarrow> rat" where
  "num_of (JNum n) = n"
| "num_of _ = 0"

fun str_of :: "jsval \<Rightarrow> string" where
  "str_of (JStr s) = s"
| "str_of _ = []"

text \<open>
  Property read \<open>o.k\<close> on a value that is neither \<open>null\<close> nor \<open>undefined\<close>: a missing
  key reads as \<open>undefined\<close>. Properties inherited from prototypes are not modelled.
\<close>

fun get_prop :: "jsval \<Rightarrow> string \<Rightarrow> jsval" where
  "get_prop (JObj ps) k = (case map_of ps k of Some v \<Rightarrow> v | None \<Rightarrow> JUndefined)"
| "get_prop _ k = JUndefined"

text \<open>
  \<open>{...o, k: v}\<close> and \<open>o[k] = v\<close>: an existing key keeps its place and takes the new value,
  a new key is appended.
\<close>

fun obj_set :: "string \<Rightarrow> 'v \<Rightarrow> (string \<times> 'v) list \<Rightarrow> (string \<times> 'v) list" where
  "obj_set k v [] = [(k, v)]"
| "obj_set k v ((k', v') # ps) = (if k' = k then (k, v) # ps else (k', v') # obj_set k v ps)"

text \<open>\<open>Object.values(o).reduce((sum, amount) => sum + amount, 0)\<close>\<close>

definition sum_values :: "(string \<times> rat) list \<Rightarrow> rat" where
  "sum_values obj = foldl (\<lambda>sum amount. sum + amount) 0 (map snd obj)"

definition digit :: "char \<Rightarrow> bool" where
  "digit ch = (ch \<in> set ''0123456789'')"

text \<open>The regular expressions \<open>/^\d{4}-\d{2}$/\<close>, \<open>/^\d{4}-\d{2}-\d{2}$/\<close> and \<open>/^\d{4}$/\<close>.\<close>

definition is_month :: "string \<Rightarrow> bool" where
  "is_month s = (length s = 7 \<and> list_all digit (take 4 s) \<and> s ! 4 = CHR ''-''
      \<and> list_all digit (drop 5 s))"

definition is_date :: "string \<Rightarrow> bool" where
  "is_date s = (length s = 10 \<and> is_month (take 7 s) \<and> s ! 7 = CHR ''-''
      \<and> list_all digit (drop 8 s))"


section \<open>HTTP responses and the document store\<close>

text \<open>
  A handler either sends a success payload with a status, sends \<open>{error: message}\<close> with a
  status, or throws outside every \<open>try\<close> so that no response is sent (\<open>Unhandled\<close>).
  Numbers that the source interpolates into an error message are left out of the message.
\<close>

datatype 'a http = Sent nat 'a | Err nat string | Unhandled

text \<open>
  One MongoDB collection holding one document per user id. An unreachable store makes every
  driver call throw, which the handlers catch and answer with status 500.
\<close>

record 'd collection =
  reachable :: bool
  docs :: "string \<rightharpoonup> 'd"

section \<open>Income (routes/income.js)\<close>

record income_rec =
  inc_total :: rat
  inc_sources :: "(string \<times> rat) list"
  inc_updatedAt :: nat

text \<open>The user's document maps a month \<open>YYYY-MM\<close> to its income record (field \<open>income\<close>).\<close>

type_synonym income_doc = "string \<rightharpoonup> income_rec"

text \<open>
  The loop over \<open>Object.entries(sources)\<close> that returns 400 at the first value that is not a
  non-negative number; the result is the offending key.
\<close>

fun first_bad_source :: "(string \<times> jsval) list \<Rightarrow> string option" where
  "first_bad_source [] = None"
| "first_bad_source ((key, val) # rest) =
     (if typeof val \<noteq> TNumber \<or> num_of val < 0 then Some key else first_bad_source rest)"

definition obj_nums :: "(string \<times> jsval) list \<Rightarrow> (string \<times> rat) list" where
  "obj_nums ps = map (\<lambda>(k, v). (k, num_of v)) ps"

text \<open>
  Lines 333-370 of \<open>POST /\<close>: the final sources of a validated total. \<open>Object.entries(null)\<close>
  throws a TypeError before the handler's \<open>try\<close>.
\<close>

definition set_final_sources :: "rat \<Rightarrow> jsval \<Rightarrow> income_rec http + (string \<times> rat) list" where
  "set_final_sources tot sources =
     (if sources = JUndefined then Inr [(''main'', tot)]
      else if typeof sources \<noteq> TObject \<or> isArray sources
        then Inl (Err 400 ''sources must be an object'')
      else case sources of
        JObj ps \<Rightarrow>
          (case first_bad_source ps of
             Some key \<Rightarrow> Inl (Err 400 (''source '' @ [CHR 0x27] @ key @ [CHR 0x27] @ '' must be a non-negative number''))
           | None \<Rightarrow>
               (let sourcesTotal = sum_values (obj_nums ps) in
                if sourcesTotal > tot
                  then Inl (Err 400 ''sources total cannot exceed declared total'')
                else if sourcesTotal < tot
                  then Inr (obj_set ''miscellaneous'' (tot - sourcesTotal) (obj_nums ps))
                else Inr (obj_nums ps)))
      | _ \<Rightarrow> Inl Unhandled)"

text \<open>\<open>updateOne({userId}, {$set: {income.<month>: incomeData}}, {upsert: true})\<close>\<close>

definition set_income_month ::
  "income_doc collection \<Rightarrow> string \<Rightarrow> string \<Rightarrow> income_rec \<Rightarrow> income_doc collection" where
  "set_income_month c userId month incomeData =
     c\<lparr>docs := (docs c)(userId \<mapsto>
        (case docs c userId of None \<Rightarrow> Map.empty | Some d \<Rightarrow> d)(month \<mapsto> incomeData))\<rparr>"

text \<open>\<open>POST /api/v1/income\<close> with body \<open>{month, total, sources}\<close> at time \<open>now\<close>.\<close>

definition setIncome ::
  "income_doc collection \<Rightarrow> nat \<Rightarrow> string \<Rightarrow> jsval \<Rightarrow> jsval \<Rightarrow> jsval
     \<Rightarrow> income_rec http \<times> income_doc collection" where
  "setIncome c now userId month tot sources =
     (if \<not> truthy month \<or> typeof month \<noteq> TString \<or> \<not> is_month (str_of month)
          \<or> typeof tot \<noteq> TNumber \<or> num_of tot < 0
        then (Err 400 ''month (YYYY-MM) and total (non-negative number) are required'', c)
      else case set_final_sources (num_of tot) sources of
        Inl r \<Rightarrow> (r, c)
      | Inr finalSources \<Rightarrow>
          (let incomeData = \<lparr>inc_total = num_of tot, inc_sources = finalSources,
                             inc_updatedAt = now\<rparr> in
           if reachable c
             then (Sent 201 incomeData, set_income_month c userId (str_of month) incomeData)
           else (Err 500 ''failed to set/update income'', c)))"

text \<open>\<open>findOne({userId})\<close> followed by \<open>doc?.income?.[month]\<close>.\<close>

definition find_income :: "income_doc collection \<Rightarrow> string \<Rightarrow> string \<Rightarrow> income_rec option" where
  "find_income c userId month = Option.bind (docs c userId) (\<lambda>d. d month)"

text \<open>
  Lines 443-456 of \<open>PUT /:month\<close>: the validation of \<open>sources\<close> when it is not
  \<open>undefined\<close>; \<open>None\<close> when it passes.
\<close>

definition check_sources :: "jsval \<Rightarrow> income_rec http option" where
  "check_sources sources =
     (if sources \<noteq> JUndefined then
        (if typeof sources \<noteq> TObject \<or> isArray sources
           then Some (Err 400 ''sources must be an object'')
         else case sources of
           JObj ps \<Rightarrow>
             (case first_bad_source ps of
                Some key \<Rightarrow> Some (Err 400 (''source '' @ [CHR 0x27] @ key @ [CHR 0x27] @ '' must be a non-negative number''))
              | None \<Rightarrow> None)
         | _ \<Rightarrow> Some Unhandled)
      else None)"

text \<open>
  Lines 474-531: the three cases that decide the final sources, or the 400 answer when the
  sources in effect exceed the total in effect. \<open>srcs\<close> are the validated new sources.
\<close>

definition update_final_sources ::
  "jsval \<Rightarrow> jsval \<Rightarrow> income_rec \<Rightarrow> income_rec http + (string \<times> rat) list" where
  "update_final_sources tot sources existingIncome =
     (let finalTotal = (if tot \<noteq> JUndefined then num_of tot else inc_total existingIncome);
          srcs = (case sources of JObj ps \<Rightarrow> obj_nums ps | _ \<Rightarrow> []);
          finalSources = (if sources \<noteq> JUndefined then srcs else inc_sources existingIncome)
      in
      if tot \<noteq> JUndefined \<and> sources \<noteq> JUndefined then
        (let sourcesTotal = sum_values srcs in
         if sourcesTotal > num_of tot
           then Inl (Err 400 ''sources total cannot exceed declared total'')
         else if sourcesTotal < num_of tot
           then Inr (obj_set ''miscellaneous'' (num_of tot - sourcesTotal) srcs)
         else Inr finalSources)
      else if tot \<noteq> JUndefined \<and> sources = JUndefined then
        (let existingSourcesTotal = sum_values (inc_sources existingIncome) in
         if existingSourcesTotal > num_of tot
           then Inl (Err 400 ''existing sources total exceeds new total. Please update sources as well.'')
         else if existingSourcesTotal < num_of tot
           then Inr (obj_set ''miscellaneous'' (num_of tot - existingSourcesTotal)
                       (inc_sources existingIncome))
         else Inr finalSources)
      else if sources \<noteq> JUndefined \<and> tot = JUndefined then
        (let sourcesTotal = sum_values srcs in
         if sourcesTotal > finalTotal
           then Inl (Err 400 ''sources total cannot exceed existing total'')
         else if sourcesTotal < finalTotal
           then Inr (obj_set ''miscellaneous'' (finalTotal - sourcesTotal) srcs)
         else Inr finalSources)
      else Inr finalSources)"

text \<open>
  \<open>PUT /api/v1/income/:month\<close> with body \<open>{total, sources}\<close>. The month is a path parameter,
  hence a string. The \<open>$set\<close> writes \<open>total\<close> only when it was given, and always \<open>sources\<close>
  and \<open>updatedAt\<close>.
\<close>

definition updateIncome ::
  "income_doc collection \<Rightarrow> nat \<Rightarrow> string \<Rightarrow> string \<Rightarrow> jsval \<Rightarrow> jsval
     \<Rightarrow> income_rec http \<times> income_doc collection" where
  "updateIncome c now userId month tot sources =
     (if \<not> is_month month then (Err 400 ''month must be in YYYY-MM format'', c)
      else if \<not> truthy tot \<and> \<not> truthy sources
        then (Err 400 ''either total or sources must be provided for update'', c)
      else if tot \<noteq> JUndefined \<and> (typeof tot \<noteq> TNumber \<or> num_of tot < 0)
        then (Err 400 ''total must be a non-negative number'', c)
      else case check_sources sources of
        Some r \<Rightarrow> (r, c)
      | None \<Rightarrow>
          if \<not> reachable c then (Err 500 ''failed to update monthly income'', c)
          else (case find_income c userId month of
            None \<Rightarrow> (Err 404 ''No income record found for this month'', c)
          | Some existingIncome \<Rightarrow>
              (case update_final_sources tot sources existingIncome of
                 Inl r \<Rightarrow> (r, c)
               | Inr finalSources \<Rightarrow>
                   (let finalTotal =
                          (if tot \<noteq> JUndefined then num_of tot else inc_total existingIncome);
                        withTotal =
                          (if tot \<noteq> JUndefined then (existingIncome\<lparr>inc_total := finalTotal\<rparr>)
                           else existingIncome);
                        stored = (withTotal\<lparr>inc_sources := finalSources, inc_updatedAt := now\<rparr>)
                    in (Sent 200 \<lparr>inc_total = finalTotal, inc_sources = finalSources,
                                  inc_updatedAt = now\<rparr>,
                        set_income_month c userId month stored)))))"

text \<open>
  \<open>updateOne({userId}, {$unset: {income.<month>: ""}})\<close>: the \<open>matchedCount\<close> and the
  collection afterwards. A document matches by user id alone.
\<close>

definition unset_income_month ::
  "income_doc collection \<Rightarrow> string \<Rightarrow> string \<Rightarrow> nat \<times> income_doc collection" where
  "unset_income_month c userId month =
     (case docs c userId of
        None \<Rightarrow> (0, c)
      | Some d \<Rightarrow> (1, c\<lparr>docs := (docs c)(userId \<mapsto> d(month := None))\<rparr>))"

text \<open>\<open>DELETE /api/v1/income/:month\<close>\<close>

definition deleteIncome ::
  "income_doc collection \<Rightarrow> string \<Rightarrow> string \<Rightarrow> string http \<times> income_doc collection" where
  "deleteIncome c userId month =
     (if \<not> is_month month then (Err 400 ''month must be in YYYY-MM format'', c)
      else if \<not> reachable c then (Err 500 ''failed to delete monthly income'', c)
      else (let (matchedCount, c') = unset_income_month c userId month in
            if matchedCount = 0 then (Err 404 ''No income records found for user'', c')
            else (Sent 200 ''income record deleted successfully'', c')))"

section \<open>Entries (routes/entries.js)\<close>

text \<open>
  A stored entry. Every entry reaches the store through \<open>add-user-entries\<close>, whose schema
  check fixes the types of \<open>code\<close>, \<open>amount\<close>, \<open>item\<close> and \<open>confidence\<close>; further fields of
  the submitted object (\<open>id\<close>, \<open>name\<close>) are stored verbatim and read by none of the handlers
  modelled here.
\<close>

record entry =
  e_code :: string
  e_amount :: rat
  e_item :: string
  e_confidence :: "rat option"

text \<open>
  The user's document maps a month to its days, in the order \<open>Object.values\<close> enumerates
  them; a day holds its \<open>entries\<close> array (\<open>None\<close> when the field is missing).
\<close>

type_synonym entries_doc = "string \<rightharpoonup> (string \<times> entry list option) list"

text \<open>
  The test of one submitted entry in the validation loop. \<open>typeof null\<close> is \<open>'object'\<close>, so
  a \<open>null\<close> entry passes the first disjunct and \<open>entry.code\<close> throws a TypeError.
\<close>

datatype entry_check = EntryOk | EntryInvalid | EntryThrows

definition check_entry :: "jsval \<Rightarrow> entry_check" where
  "check_entry e =
     (if typeof e \<noteq> TObject then EntryInvalid
      else if e = JNull then EntryThrows
      else if typeof (get_prop e ''code'') \<noteq> TString
           \<or> typeof (get_prop e ''amount'') \<noteq> TNumber
           \<or> typeof (get_prop e ''item'') \<noteq> TString
           \<or> (get_prop e ''confidence'' \<noteq> JUndefined
                \<and> typeof (get_prop e ''confidence'') \<noteq> TNumber)
        then EntryInvalid
      else EntryOk)"

fun validate_entries :: "jsval list \<Rightarrow> entry_check" where
  "validate_entries [] = EntryOk"
| "validate_entries (e # es) =
     (case check_entry e of EntryOk \<Rightarrow> validate_entries es | r \<Rightarrow> r)"

definition entry_of :: "jsval \<Rightarrow> entry" where
  "entry_of e =
     \<lparr>e_code = str_of (get_prop e ''code''),
      e_amount = num_of (get_prop e ''amount''),
      e_item = str_of (get_prop e ''item''),
      e_confidence = (case get_prop e ''confidence'' of JNum x \<Rightarrow> Some x | _ \<Rightarrow> None)\<rparr>"

text \<open>
  \<open>updateOne({userId}, {$push: {<yearMonth>.<day>.entries: {$each: entries}}}, {upsert: true})\<close>
\<close>

definition push_entries ::
  "entries_doc collection \<Rightarrow> string \<Rightarrow> string \<Rightarrow> string \<Rightarrow> entry list
     \<Rightarrow> entries_doc collection" where
  "push_entries c userId yearMonth day es =
     (let d = (case docs c userId of None \<Rightarrow> Map.empty | Some d \<Rightarrow> d);
          days = (case d yearMonth of None \<Rightarrow> [] | Some ds \<Rightarrow> ds);
          old = (case map_of days day of Some (Some xs) \<Rightarrow> xs | _ \<Rightarrow> [])
      in c\<lparr>docs := (docs c)(userId \<mapsto> d(yearMonth \<mapsto> obj_set day (Some (old @ es)) days))\<rparr>)"

text \<open>\<open>entriesDoc?.[month]?.[day]?.entries\<close>, the entries stored for one day.\<close>

definition stored_entries :: "entries_doc collection \<Rightarrow> string \<Rightarrow> string \<Rightarrow> string \<Rightarrow> entry list" where
  "stored_entries c userId yearMonth day =
     (case Option.bind (docs c userId) (\<lambda>d. d yearMonth) of
        None \<Rightarrow> []
      | Some days \<Rightarrow> (case map_of days day of Some (Some xs) \<Rightarrow> xs | _ \<Rightarrow> []))"

text \<open>
  \<open>POST /api/v1/entries/add-user-entries\<close> with body \<open>{entries, date}\<close>. The write is
  acknowledged whenever the store is reachable.
\<close>

definition add_user_entries ::
  "entries_doc collection \<Rightarrow> string \<Rightarrow> jsval \<Rightarrow> jsval \<Rightarrow> string http \<times> entries_doc collection" where
  "add_user_entries c userId entries date =
     (case entries of
        JArr es \<Rightarrow>
          if length es = 0 then (Err 400 ''entries array required'', c)
          else if \<not> truthy date \<or> typeof date \<noteq> TString \<or> \<not> is_date (str_of date)
            then (Err 400 ''date in YYYY-MM-DD format required'', c)
          else (case validate_entries es of
                  EntryInvalid \<Rightarrow> (Err 400 ''invalid entry schema'', c)
                | EntryThrows \<Rightarrow> (Unhandled, c)
                | EntryOk \<Rightarrow>
                    if reachable c
                      then (Sent 201 ''entries added'',
                            push_entries c userId (take 7 (str_of date)) (drop 8 (str_of date))
                              (map entry_of es))
                    else (Err 500 ''failed to add user entries'', c))
      | _ \<Rightarrow> (Err 400 ''entries array required'', c))"

section \<open>Budget reconciliation (routes/budgets.js)\<close>

record budget =
  budget_total :: rat
  categories :: "(string \<times> rat) list"

type_synonym budget_doc = "string \<rightharpoonup> budget"

text \<open>
  One node of \<open>data/categories.json\<close>. The table itself is not part of the sources at hand,
  so the taxonomy is a parameter of the reconciliation.
\<close>

record category_node =
  cat_code :: string
  cat_parent :: "string option"

text \<open>\<open>categories.find(cat => cat.code === categoryCode)?.parent\<close>\<close>

definition parent_of :: "category_node list \<Rightarrow> string \<Rightarrow> string option" where
  "parent_of taxonomy categoryCode =
     (case find (\<lambda>cat. cat_code cat = categoryCode) taxonomy of
        None \<Rightarrow> None
      | Some cat \<Rightarrow> cat_parent cat)"

text \<open>
  The test \<open>if (monthlyBudget.categories[code])\<close>: the looked-up amount as a condition, so
  a missing key and an amount of \<open>0\<close> are both falsy.
\<close>

definition has_budget :: "(string \<times> rat) list \<Rightarrow> string \<Rightarrow> bool" where
  "has_budget cats code = (case map_of cats code of None \<Rightarrow> False | Some a \<Rightarrow> a \<noteq> 0)"

text \<open>\<open>obj[key] || 0\<close>\<close>

definition or_zero :: "(string \<times> rat) list \<Rightarrow> string \<Rightarrow> rat" where
  "or_zero obj key = (case map_of obj key of None \<Rightarrow> 0 | Some v \<Rightarrow> if v \<noteq> 0 then v else 0)"

text \<open>
  The body of the inner \<open>forEach\<close> (lines 132-149): one entry is added to the bucket of its
  own code, else of its parent, else to the miscellaneous expenses.
\<close>

definition add_expense ::
  "budget \<Rightarrow> category_node list \<Rightarrow> (string \<times> rat) list \<times> rat \<Rightarrow> entry
     \<Rightarrow> (string \<times> rat) list \<times> rat" where
  "add_expense monthlyBudget taxonomy acc ent =
     (let expensesByCategory = fst acc;
          miscellaneousExpenses = snd acc;
          categoryCode = e_code ent;
          amount = (if e_amount ent \<noteq> 0 then e_amount ent else 0)
      in
      if has_budget (categories monthlyBudget) categoryCode
        then (obj_set categoryCode (or_zero expensesByCategory categoryCode + amount)
                expensesByCategory, miscellaneousExpenses)
      else (case parent_of taxonomy categoryCode of
              Some parentCategory \<Rightarrow>
                if parentCategory \<noteq> [] \<and> has_budget (categories monthlyBudget) parentCategory
                  then (obj_set parentCategory (or_zero expensesByCategory parentCategory + amount)
                          expensesByCategory, miscellaneousExpenses)
                else (expensesByCategory, miscellaneousExpenses + amount)
            | None \<Rightarrow> (expensesByCategory, miscellaneousExpenses + amount)))"

text \<open>The outer \<open>forEach\<close> over the days of the month (lines 130-151).\<close>

definition add_day ::
  "budget \<Rightarrow> category_node list \<Rightarrow> (string \<times> rat) list \<times> rat \<Rightarrow> entry list option
     \<Rightarrow> (string \<times> rat) list \<times> rat" where
  "add_day monthlyBudget taxonomy acc dayData =
     (case dayData of
        None \<Rightarrow> acc
      | Some es \<Rightarrow> foldl (add_expense monthlyBudget taxonomy) acc es)"

definition spend_buckets ::
  "budget \<Rightarrow> category_node list \<Rightarrow> (string \<times> entry list option) list
     \<Rightarrow> (string \<times> rat) list \<times> rat" where
  "spend_buckets monthlyBudget taxonomy monthlyEntries =
     foldl (add_day monthlyBudget taxonomy) ([], 0) (map snd monthlyEntries)"

record reconciliation =
  r_month :: string
  originalBudget :: budget
  totalSpent :: rat
  totalRemaining :: rat
  remainingBudgets :: "(string \<times> rat) list"
  expensesByCategory :: "(string \<times> rat) list"

text \<open>
  \<open>GET /api/v1/budgets/:month/remaining\<close>, reading the user's budget document and entries
  document. The record fields carry the names of the response, so the handler's locals
  \<open>expensesByCategory\<close>, \<open>remainingBudgets\<close> (before \<open>MIS\<close> is set) and \<open>totalSpent\<close> are
  \<open>spent\<close>, \<open>declared\<close> and \<open>spentSum\<close> here.
\<close>

definition remaining ::
  "budget_doc collection \<Rightarrow> entries_doc collection \<Rightarrow> category_node list \<Rightarrow> string \<Rightarrow> string
     \<Rightarrow> reconciliation http" where
  "remaining userBudgets userEntries taxonomy userId month =
     (if \<not> is_month month then Err 400 ''month must be in YYYY-MM format''
      else if \<not> reachable userBudgets then Err 500 ''failed to calculate remaining budget''
      else case Option.bind (docs userBudgets userId) (\<lambda>d. d month) of
        None \<Rightarrow> Err 404 ''No budget set for this month''
      | Some monthlyBudget \<Rightarrow>
          if \<not> reachable userEntries then Err 500 ''failed to calculate remaining budget''
          else
            (let monthlyEntries =
                   (case Option.bind (docs userEntries userId) (\<lambda>d. d month) of
                      None \<Rightarrow> [] | Some days \<Rightarrow> days);
                 buckets = spend_buckets monthlyBudget taxonomy monthlyEntries;
                 spent = fst buckets;
                 miscellaneousExpenses = snd buckets;
                 totalAllocated = sum_values (categories monthlyBudget);
                 miscellaneousBudget = budget_total monthlyBudget - totalAllocated;
                 declared =
                   foldl (\<lambda>rb (categoryCode, budgetAmount).
                            obj_set categoryCode (budgetAmount - or_zero spent categoryCode) rb)
                     [] (categories monthlyBudget);
                 spentSum = sum_values spent + miscellaneousExpenses
             in Sent 200
                  \<lparr>r_month = month,
                   originalBudget = monthlyBudget,
                   totalSpent = spentSum,
                   totalRemaining = budget_total monthlyBudget - spentSum,
                   remainingBudgets =
                     obj_set ''MIS'' (miscellaneousBudget - miscellaneousExpenses) declared,
                   expensesByCategory = obj_set ''MIS'' miscellaneousExpenses spent\<rparr>))"

section \<open>Savings (routes/savings.js)\<close>

text \<open>Decimal rendering of a number in a template string, and \<open>padStart(2, '0')\<close>.\<close>

definition digit_char :: "nat \<Rightarrow> char" where
  "digit_char d = ''0123456789'' ! d"

fun show_nat :: "nat \<Rightarrow> string" where
  "show_nat n = (if n < 10 then [digit_char n] else show_nat (n div 10) @ [digit_char (n mod 10)])"

declare show_nat.simps [simp del]

text \<open>Reading a decimal rendering back; it shows that distinct numbers render differently.\<close>

definition digit_val :: "char \<Rightarrow> nat" where
  "digit_val ch = of_char ch - 48"

definition read_nat :: "string \<Rightarrow> nat" where
  "read_nat s = foldl (\<lambda>a ch. 10 * a + digit_val ch) 0 s"


text \<open>
  \<open>calculateMonthlyExpenses\<close>: the sum of \<open>entry.amount || 0\<close> over every day of the month
  that has an \<open>entries\<close> array.
\<close>

definition calculateMonthlyExpenses :: "entries_doc collection \<Rightarrow> string \<Rightarrow> string \<Rightarrow> rat" where
  "calculateMonthlyExpenses userEntries userId month =
     (let monthlyEntries =
            (case Option.bind (docs userEntries userId) (\<lambda>d. d month) of
               None \<Rightarrow> [] | Some days \<Rightarrow> days)
      in foldl (\<lambda>totalExpenses dayData.
                  case dayData of
                    None \<Rightarrow> totalExpenses
                  | Some es \<Rightarrow>
                      foldl (\<lambda>t ent. t + (if e_amount ent \<noteq> 0 then e_amount ent else 0))
                        totalExpenses es)
           0 (map snd monthlyEntries))"

text \<open>The amounts recorded on one day, added up.\<close>

definition day_total :: "entry list option \<Rightarrow> rat" where
  "day_total dayData = (case dayData of None \<Rightarrow> 0 | Some es \<Rightarrow> sum_list (map e_amount es))"






record year_summary =
  totalIncome :: rat
  totalExpenses :: rat
  totalSavings :: rat
  averageSavingsRate :: rat
  monthsWithData :: nat







section \<open>Chat orchestrator (routes/chat.js)\<close>

text \<open>One element of the resolver's list: \<open>{intent, parameters}\<close>.\<close>

record intent_entry =
  intent :: string
  parameters :: jsval

definition intent_json :: "intent_entry \<Rightarrow> jsval" where
  "intent_json i = JObj [(''intent'', JStr (intent i)), (''parameters'', parameters i)]"

text \<open>
  A downstream request: the method, the path below \<open>/api/v1\<close> (literal segments as strings,
  interpolated values as they are) and the query parameters or the body.
\<close>

datatype http_method = GET | POST | PUT | DELETE

record api_call =
  call_method :: http_method
  call_path :: "jsval list"
  call_payload :: jsval

text \<open>
  The synchronous part of one branch of \<open>intents.map(async (intent) => ...)\<close>: it runs up to
  the first \<open>await\<close>, so it either throws before any request is made (an intent outside the
  \<open>switch\<close>, or a destructuring of \<open>undefined\<close> or \<open>null\<close> parameters) or issues its request
  and suspends.
\<close>

datatype branch_start = Throws string | Awaits api_call

definition destructurable :: "jsval \<Rightarrow> bool" where
  "destructurable v = (v \<noteq> JUndefined \<and> v \<noteq> JNull)"

definition with_parameters :: "jsval \<Rightarrow> api_call \<Rightarrow> branch_start" where
  "with_parameters p call =
     (if destructurable p then Awaits call
      else Throws ''Cannot destructure property of intent.parameters'')"

definition start_branch :: "intent_entry \<Rightarrow> branch_start" where
  "start_branch i =
     (let p = parameters i; name = intent i in
      if name = ''getSpending'' then
        with_parameters p
          \<lparr>call_method = GET, call_path = [JStr ''entries''],
           call_payload =
             JObj [(''category'',
                    if truthy (get_prop p ''category'') then get_prop p ''category'' else JUndefined),
                   (''month'', get_prop p ''month'')]\<rparr>
      else if name = ''getBudget'' then
        with_parameters p
          \<lparr>call_method = GET, call_path = [JStr ''budgets'', get_prop p ''month''],
           call_payload = JUndefined\<rparr>
      else if name = ''getRemainingBudget'' then
        with_parameters p
          \<lparr>call_method = GET,
           call_path = [JStr ''budgets'', get_prop p ''month'', JStr ''remaining''],
           call_payload = JUndefined\<rparr>
      else if name = ''getSavings'' then
        with_parameters p
          \<lparr>call_method = GET,
           call_path = [JStr ''savings'', get_prop p ''month'', JStr ''monthly''],
           call_payload = JUndefined\<rparr>
      else if name = ''getYearlySavings'' then
        with_parameters p
          \<lparr>call_method = GET,
           call_path = [JStr ''savings'', get_prop p ''year'', JStr ''yearly''],
           call_payload = JUndefined\<rparr>
      else if name = ''getSavingsSummary'' then
        with_parameters p
          \<lparr>call_method = GET,
           call_path = [JStr ''savings'', JStr ''summary'', get_prop p ''year''],
           call_payload = JUndefined\<rparr>
      else if name = ''getIncome'' then
        with_parameters p
          \<lparr>call_method = GET, call_path = [JStr ''income'', get_prop p ''month''],
           call_payload = JUndefined\<rparr>
      else if name = ''getAllIncome'' then
        Awaits \<lparr>call_method = GET, call_path = [JStr ''income''], call_payload = JUndefined\<rparr>
      else if name = ''getAllBudgets'' then
        Awaits \<lparr>call_method = GET, call_path = [JStr ''budgets''], call_payload = JUndefined\<rparr>
      else if name = ''addEntries'' then
        with_parameters p
          \<lparr>call_method = POST, call_path = [JStr ''entries'', JStr ''add-user-entries''],
           call_payload =
             JObj [(''date'', get_prop p ''date''), (''entries'', get_prop p ''entries'')]\<rparr>
      else if name = ''createBudget'' then
        with_parameters p
          \<lparr>call_method = POST, call_path = [JStr ''budgets''],
           call_payload =
             JObj [(''month'', get_prop p ''month''), (''total'', get_prop p ''total''),
                   (''categories'', get_prop p ''categories'')]\<rparr>
      else if name = ''setIncome'' then
        with_parameters p
          \<lparr>call_method = POST, call_path = [JStr ''income''],
           call_payload =
             JObj [(''month'', get_prop p ''month''), (''total'', get_prop p ''total''),
                   (''sources'', get_prop p ''sources'')]\<rparr>
      else if name = ''updateIncome'' then
        with_parameters p
          \<lparr>call_method = PUT, call_path = [JStr ''income'', get_prop p ''month''],
           call_payload =
             JObj ((if get_prop p ''total'' \<noteq> JUndefined
                      then [(''total'', get_prop p ''total'')] else [])
                   @ (if get_prop p ''sources'' \<noteq> JUndefined
                        then [(''sources'', get_prop p ''sources'')] else []))\<rparr>
      else if name = ''deleteIncome'' then
        with_parameters p
          \<lparr>call_method = DELETE, call_path = [JStr ''income'', get_prop p ''month''],
           call_payload = JUndefined\<rparr>
      else if name = ''reassignBudget'' then
        with_parameters p
          \<lparr>call_method = POST,
           call_path = [JStr ''budgets'', get_prop p ''month'', JStr ''reassign''],
           call_payload =
             JObj [(''entryId'', get_prop p ''entryId''),
                   (''fromCategory'', get_prop p ''fromCategory''),
                   (''toCategory'', get_prop p ''toCategory''),
                   (''amount'', get_prop p ''amount'')]\<rparr>
      else if name = ''deleteBudget'' then
        with_parameters p
          \<lparr>call_method = DELETE, call_path = [JStr ''budgets'', get_prop p ''month''],
           call_payload = JUndefined\<rparr>
      else if name = ''deleteEntries'' then
        with_parameters p
          \<lparr>call_method = DELETE, call_path = [JStr ''entries'', get_prop p ''date''],
           call_payload = JUndefined\<rparr>
      else if name = ''deleteEntry'' then
        with_parameters p
          \<lparr>call_method = DELETE,
           call_path = [JStr ''entries'', get_prop p ''date'', get_prop p ''entryId''],
           call_payload = JUndefined\<rparr>
      else Throws ''Unsupported intent'')"

text \<open>One element of \<open>results\<close>: \<open>{intent, data, success}\<close>.\<close>

record result =
  res_intent :: intent_entry
  res_data :: jsval
  res_success :: bool

text \<open>The \<open>catch\<close> of a branch: \<open>{intent, data: {error: true, message}, success: false}\<close>.\<close>

definition failed :: "intent_entry \<Rightarrow> string \<Rightarrow> result" where
  "failed i message =
     \<lparr>res_intent = i,
      res_data = JObj [(''error'', JBool True), (''message'', JStr message)],
      res_success = False\<rparr>"

text \<open>
  The network as the branches see it: the outcome of the request of the branch at a position
  of the list, either the response's \<open>data\<close> or the message of the error axios throws. It is
  a parameter, so that it ranges over every behaviour of the downstream endpoints, with one
  assumption: every request settles.
\<close>

type_synonym network = "nat \<Rightarrow> api_call \<Rightarrow> string + jsval"

text \<open>The rest of a branch once its request has settled: the push of its record.\<close>

definition settle :: "network \<Rightarrow> nat \<times> intent_entry \<times> api_call \<Rightarrow> result" where
  "settle net b =
     (case b of (k, i, call) \<Rightarrow>
        (case net k call of
           Inr payload \<Rightarrow> \<lparr>res_intent = i, res_data = payload, res_success = True\<rparr>
         | Inl message \<Rightarrow> failed i message))"

text \<open>
  One branch as a whole, the \<open>try\<close> and its \<open>catch\<close>: the record that the branch at
  position \<open>k\<close> pushes. It depends on the branch's own intent and on the outcome of its own
  request, and on nothing else.
\<close>

definition branch_record :: "network \<Rightarrow> nat \<Rightarrow> intent_entry \<Rightarrow> result" where
  "branch_record net k i =
     (case start_branch i of
        Throws message \<Rightarrow> failed i message
      | Awaits call \<Rightarrow> settle net (k, i, call))"

text \<open>
  The order in which suspended branches resume is the scheduler's: at each step the schedule
  names which of the branches still pending settles next (modulo their number; an exhausted
  schedule takes the first).
\<close>

function complete :: "nat list \<Rightarrow> 'a list \<Rightarrow> 'a list" where
  "complete sched [] = []"
| "complete [] (b # bs) = b # complete [] bs"
| "complete (n # sched) (b # bs) =
     (let k = n mod length (b # bs) in
      (b # bs) ! k # complete sched (take k (b # bs) @ drop (Suc k) (b # bs)))"
  by pat_completeness auto
termination
  by (relation "measure (\<lambda>(sched, bs). length bs)") auto

text \<open>The records pushed while \<open>map\<close> runs, and the branches left pending, in list order.\<close>

fun started :: "nat \<Rightarrow> intent_entry list \<Rightarrow> (nat \<times> intent_entry \<times> branch_start) list" where
  "started k [] = []"
| "started k (i # is) = (k, i, start_branch i) # started (Suc k) is"

fun thrown :: "(nat \<times> intent_entry \<times> branch_start) list \<Rightarrow> result list" where
  "thrown [] = []"
| "thrown ((k, i, Throws message) # bs) = failed i message # thrown bs"
| "thrown ((k, i, Awaits call) # bs) = thrown bs"

fun pending :: "(nat \<times> intent_entry \<times> branch_start) list \<Rightarrow> (nat \<times> intent_entry \<times> api_call) list" where
  "pending [] = []"
| "pending ((k, i, Throws message) # bs) = pending bs"
| "pending ((k, i, Awaits call) # bs) = (k, i, call) # pending bs"

text \<open>
  \<open>results\<close> after \<open>await Promise.all(...)\<close>: every push appends, so the array lists the
  branches in the order they finished.
\<close>

definition collect :: "network \<Rightarrow> nat list \<Rightarrow> intent_entry list \<Rightarrow> result list" where
  "collect net sched intents =
     thrown (started 0 intents) @ map (settle net) (complete sched (pending (started 0 intents)))"

text \<open>
  The \<open>forEach\<close> that fills \<open>combinedData\<close> (lines 242-247): the key
  \<open>`result${index + 1}`\<close> and the value \<open>{intent: result.intent.intent, data: result.data}\<close>.
\<close>

definition result_key :: "nat \<Rightarrow> string" where
  "result_key index = ''result'' @ show_nat (index + 1)"

definition result_json :: "result \<Rightarrow> jsval" where
  "result_json r = JObj [(''intent'', JStr (intent (res_intent r))), (''data'', res_data r)]"

fun combine :: "nat \<Rightarrow> result list \<Rightarrow> (string \<times> jsval) list \<Rightarrow> (string \<times> jsval) list" where
  "combine index [] combinedData = combinedData"
| "combine index (r # rs) combinedData =
     combine (Suc index) rs (obj_set (result_key index) (result_json r) combinedData)"

text \<open>
  What one request to \<open>POST /api/v1/chat\<close> produces: the response, the downstream requests
  issued, and the \<open>results\<close> array.
\<close>

record chat_outcome =
  status :: nat
  body :: jsval
  calls :: "api_call list"
  collected :: "result list"

definition clarification :: string where
  "clarification =
     ''I don't understand that question. You can ask me about your own financial data, such as 'What did I spend on groceries last month?', 'How much is my budget for this month?', or 'Show me my savings for this year.''
     @ [CHR 0x27]"

text \<open>
  The handler. \<open>extractIntent\<close>, \<open>generateResponse\<close> and \<open>generateMultiResponse\<close> of the chat
  service catch every error of the LLM call themselves and return a value, so they are total
  functions here. With every branch catching its own errors nothing inside the inner \<open>try\<close>
  throws, and its \<open>catch (apiError)\<close> is not reached.
\<close>

definition chat ::
  "(string \<Rightarrow> intent_entry list) \<Rightarrow> (string \<Rightarrow> jsval \<Rightarrow> string)
     \<Rightarrow> (string \<Rightarrow> result list \<Rightarrow> string) \<Rightarrow> network \<Rightarrow> nat list \<Rightarrow> jsval \<Rightarrow> chat_outcome" where
  "chat extractIntent generateResponse generateMultiResponse net sched reqBody =
     (if \<not> destructurable reqBody then
        \<lparr>status = 500,
         body = JObj [(''error'', JStr ''Failed to process chat request''),
                      (''message'', JStr ''Cannot destructure property of req.body''),
                      (''reply'', JStr ''I'm having trouble processing requests right now. Please try again later.'')],
         calls = [], collected = []\<rparr>
      else
        (let message = get_prop reqBody ''message'' in
         if \<not> truthy message \<or> typeof message \<noteq> TString then
           \<lparr>status = 400, body = JObj [(''error'', JStr ''message is required'')],
            calls = [], collected = []\<rparr>
         else
           (let intents = extractIntent (str_of message) in
            if length intents = 0 \<or> (length intents = 1 \<and> intent (intents ! 0) = ''unknown'') then
              \<lparr>status = 400,
               body = JObj [(''error'', JStr ''No valid intent could be determined from your question''),
                            (''reply'', JStr clarification)],
               calls = [], collected = []\<rparr>
            else
              (let results = collect net sched intents;
                   issued = map (\<lambda>b. snd (snd b)) (pending (started 0 intents))
               in
               if length results = 1 then
                 \<lparr>status = 200,
                  body = JObj [(''reply'', JStr (generateResponse (str_of message) (res_data (results ! 0)))),
                               (''intents'', JArr (map intent_json intents)),
                               (''data'', res_data (results ! 0))],
                  calls = issued, collected = results\<rparr>
               else
                 \<lparr>status = 200,
                  body = JObj [(''reply'', JStr (generateMultiResponse (str_of message) results)),
                               (''intents'', JArr (map intent_json intents)),
                               (''data'', JObj (combine 0 results []))],
                  calls = issued, collected = results\<rparr>))))"

section \<open>Sample data\<close>

text \<open>
  A fragment of the taxonomy (\<open>FOD-GRO\<close> is a child of \<open>FOD\<close>, \<open>MIS\<close> is a category of its
  own) and small stores for user \<open>u1\<close>, used to run the handlers on concrete requests.
\<close>

definition taxonomy_sample :: "category_node list" where
  "taxonomy_sample =
     [\<lparr>cat_code = ''FOD'', cat_parent = None\<rparr>,
      \<lparr>cat_code = ''FOD-GRO'', cat_parent = Some ''FOD''\<rparr>,
      \<lparr>cat_code = ''TRN'', cat_parent = None\<rparr>,
      \<lparr>cat_code = ''TRN-FUEL'', cat_parent = Some ''TRN''\<rparr>,
      \<lparr>cat_code = ''MIS'', cat_parent = None\<rparr>]"

definition budgets_of :: "budget \<Rightarrow> budget_doc collection" where
  "budgets_of b = \<lparr>reachable = True, docs = [''u1'' \<mapsto> [''2024-01'' \<mapsto> b]]\<rparr>"

definition entries_on :: "entry list \<Rightarrow> entries_doc collection" where
  "entries_on es =
     \<lparr>reachable = True, docs = [''u1'' \<mapsto> [''2024-01'' \<mapsto> [(''15'', Some es)]]]\<rparr>"

definition no_entries :: "entries_doc collection" where
  "no_entries = \<lparr>reachable = True, docs = Map.empty\<rparr>"

definition no_income :: "income_doc collection" where
  "no_income = \<lparr>reachable = True, docs = Map.empty\<rparr>"

text \<open>The store after \<open>setIncome(u1, "2024-01", 75000, {salary: 65000})\<close> on an empty store.\<close>

definition income_january :: "income_doc collection" where
  "income_january =
     snd (setIncome no_income 0 ''u1'' (JStr ''2024-01'') (JNum 75000)
            (JObj [(''salary'', JNum 65000)]))"

definition groceries :: entry where
  "groceries = \<lparr>e_code = ''FOD-GRO'', e_amount = 300, e_item = ''milk'', e_confidence = None\<rparr>"

definition sundries :: entry where
  "sundries = \<lparr>e_code = ''MIS'', e_amount = 200, e_item = ''sundries'', e_confidence = None\<rparr>"

definition refund :: jsval where
  "refund = JObj [(''code'', JStr ''FOD-GRO''), (''amount'', JNum (- 5)), (''item'', JStr ''refund'')]"

definition mistyped :: jsval where
  "mistyped = JObj [(''code'', JStr ''FOD-GRO''), (''amount'', JStr ''12''), (''item'', JStr ''bread'')]"

text \<open>
  Resolver outputs for the chat handler: an intent the \<open>switch\<close> does not know after one it
  knows, and an update of a month that has no record before a read that succeeds. In the
  sample network the \<open>PUT\<close> is answered 404, which axios throws, and every other request
  succeeds.
\<close>

definition two_intents :: "intent_entry list" where
  "two_intents =
     [\<lparr>intent = ''getAllBudgets'', parameters = JObj []\<rparr>,
      \<lparr>intent = ''transferMoney'', parameters = JObj []\<rparr>]"


definition network_sample :: network where
  "network_sample k call =
     (if call_method call = PUT then Inl ''Request failed with status code 404''
      else Inr (JObj [(''budgets'', JObj [])]))"

definition chat_request :: jsval where
  "chat_request = JObj [(''message'', JStr ''question'')]"

section \<open>Properties\<close>

subsection \<open>Evaluation of the samples\<close>

lemma is_month_2024_01: "is_month ''2024-01''"
  by (simp add: is_month_def digit_def)

lemma is_date_2024_01_15: "is_date ''2024-01-15''"
  by (simp add: is_date_def is_month_def digit_def)


lemmas income_defs =
  setIncome_def updateIncome_def set_final_sources_def update_final_sources_def
  check_sources_def set_income_month_def sum_values_def obj_nums_def find_income_def Let_def

lemmas remaining_defs =
  remaining_def spend_buckets_def add_day_def add_expense_def has_budget_def or_zero_def
  parent_of_def sum_values_def budgets_of_def entries_on_def taxonomy_sample_def Let_def

lemmas entries_defs =
  add_user_entries_def check_entry_def push_entries_def stored_entries_def entry_of_def
  no_entries_def Let_def

lemma income_january_stored:
  "find_income income_january ''u1'' ''2024-01''
     = Some \<lparr>inc_total = 75000,
             inc_sources = [(''salary'', 65000), (''miscellaneous'', 10000)],
             inc_updatedAt = 0\<rparr>"
  by (simp add: income_defs income_january_def no_income_def is_month_2024_01)

subsection \<open>Objects\<close>

lemma map_of_obj_set: "map_of (obj_set k v ps) k = Some v"
  by (induction ps) auto

lemma map_of_obj_set_other: "k' \<noteq> k \<Longrightarrow> map_of (obj_set k v ps) k' = map_of ps k'"
  by (induction ps) auto

lemma fst_set_obj_set: "fst ` set (obj_set k v ps) = insert k (fst ` set ps)"
  by (induction ps) force+

lemma fst_set_obj_nums: "fst ` set (obj_nums ps) = fst ` set ps"
  by (force simp: obj_nums_def)

lemma foldl_add_sum_list:
  "foldl (\<lambda>sum amount. sum + amount) a xs = a + sum_list (xs :: rat list)"
  by (induction xs arbitrary: a) simp_all

lemma sum_values_sum_list: "sum_values obj = sum_list (map snd obj)"
  by (simp add: sum_values_def foldl_add_sum_list)

text \<open>Setting a key the object does not have adds the value to the sum of the values.\<close>

lemma sum_values_obj_set_fresh:
  "k \<notin> fst ` set ps \<Longrightarrow> sum_values (obj_set k v ps) = sum_values ps + v"
  by (induction ps) (auto simp: sum_values_sum_list)

text \<open>\<open>obj[k] = (obj[k] || 0) + a\<close> adds \<open>a\<close> to the sum of the values.\<close>

lemma sum_values_accumulate:
  "sum_values (obj_set k (or_zero ps k + a) ps) = sum_values ps + a"
  by (induction ps) (auto simp: sum_values_sum_list or_zero_def)

lemma sum_values_accumulate_zero: "sum_values (obj_set k (or_zero ps k) ps) = sum_values ps"
  using sum_values_accumulate [of k ps 0] by simp

subsection \<open>Income\<close>

lemma set_final_sources_not_sent: "set_final_sources tot sources \<noteq> Inl (Sent code r)"
  by (auto simp: set_final_sources_def Let_def split: if_splits jsval.splits option.splits)

lemma check_sources_not_sent: "check_sources sources \<noteq> Some (Sent code r)"
  by (auto simp: check_sources_def split: if_splits jsval.splits option.splits)

lemma update_final_sources_not_sent:
  "update_final_sources tot sources existingIncome \<noteq> Inl (Sent code r)"
  by (auto simp: update_final_sources_def Let_def split: if_splits)

lemma check_sources_None:
  "check_sources sources = None \<Longrightarrow> sources = JUndefined \<or> (\<exists>ps. sources = JObj ps)"
  by (auto simp: check_sources_def split: if_splits jsval.splits option.splits)

lemma set_final_sources_sum:
  assumes "set_final_sources tot sources = Inr finalSources"
      and "\<forall>ps. sources = JObj ps \<longrightarrow> ''miscellaneous'' \<notin> fst ` set ps"
  shows "sum_values finalSources = tot"
proof (cases "sources = JUndefined")
  case True
  with assms(1) show ?thesis
    by (auto simp: set_final_sources_def sum_values_def)
next
  case False
  with assms(1) obtain ps where ps: "sources = JObj ps"
    by (auto simp: set_final_sources_def split: if_splits jsval.splits)
  with assms(2) have fresh: "''miscellaneous'' \<notin> fst ` set (obj_nums ps)"
    by (simp add: fst_set_obj_nums)
  from assms(1) ps show ?thesis
    by (auto simp: set_final_sources_def Let_def sum_values_obj_set_fresh [OF fresh]
        split: if_splits option.splits)
qed

text \<open>
  Where the invariant of claim C1 does hold: a successful \<open>setIncome\<close> whose submitted
  sources have no key \<open>miscellaneous\<close> stores sources that sum to the stored total.
\<close>

lemma setIncome_sum_without_collision:
  assumes "setIncome c now userId month tot sources = (Sent code r, c')"
      and "\<forall>ps. sources = JObj ps \<longrightarrow> ''miscellaneous'' \<notin> fst ` set ps"
  shows "sum_values (inc_sources r) = inc_total r
         \<and> find_income c' userId (str_of month) = Some r"
proof -
  from assms(1) obtain finalSources where
    fs: "set_final_sources (num_of tot) sources = Inr finalSources"
    and r: "r = \<lparr>inc_total = num_of tot, inc_sources = finalSources, inc_updatedAt = now\<rparr>"
    and c': "c' = set_income_month c userId (str_of month) r"
    by (auto simp: setIncome_def Let_def set_final_sources_not_sent split: if_splits sum.splits)
  show ?thesis
    using set_final_sources_sum [OF fs assms(2)] r c'
    by (simp add: find_income_def set_income_month_def)
qed

lemma update_final_sources_sum:
  assumes "update_final_sources tot sources existingIncome = Inr finalSources"
      and "tot \<noteq> JUndefined \<or> sources \<noteq> JUndefined"
      and "sources = JUndefined \<or> (\<exists>ps. sources = JObj ps)"
      and "\<forall>ps. sources = JObj ps \<longrightarrow> ''miscellaneous'' \<notin> fst ` set ps"
      and "sources = JUndefined \<longrightarrow> ''miscellaneous'' \<notin> fst ` set (inc_sources existingIncome)"
  shows "sum_values finalSources
           = (if tot \<noteq> JUndefined then num_of tot else inc_total existingIncome)"
proof (cases "sources = JUndefined")
  case True
  with assms(5) have fresh: "''miscellaneous'' \<notin> fst ` set (inc_sources existingIncome)"
    by simp
  from assms(1,2) True show ?thesis
    by (auto simp: update_final_sources_def Let_def sum_values_obj_set_fresh [OF fresh]
        split: if_splits)
next
  case False
  with assms(3) obtain ps where ps: "sources = JObj ps"
    by auto
  with assms(4) have fresh: "''miscellaneous'' \<notin> fst ` set (obj_nums ps)"
    by (simp add: fst_set_obj_nums)
  from assms(1) ps show ?thesis
    by (auto simp: update_final_sources_def Let_def sum_values_obj_set_fresh [OF fresh]
        split: if_splits)
qed

text \<open>
  The same for a successful \<open>updateIncome\<close>, when the sources in effect (the submitted ones,
  else the stored ones) have no key \<open>miscellaneous\<close>.
\<close>

lemma updateIncome_sum_without_collision:
  assumes "updateIncome c now userId month tot sources = (Sent code r, c')"
      and "\<forall>ps. sources = JObj ps \<longrightarrow> ''miscellaneous'' \<notin> fst ` set ps"
      and "\<forall>old. sources = JUndefined \<and> find_income c userId month = Some old
             \<longrightarrow> ''miscellaneous'' \<notin> fst ` set (inc_sources old)"
  shows "sum_values (inc_sources r) = inc_total r \<and> find_income c' userId month = Some r"
proof -
  from assms(1) obtain existingIncome finalSources where
    ex: "find_income c userId month = Some existingIncome"
    and chk: "check_sources sources = None"
    and fs: "update_final_sources tot sources existingIncome = Inr finalSources"
    and pres: "truthy tot \<or> truthy sources"
    and r: "r = \<lparr>inc_total = (if tot \<noteq> JUndefined then num_of tot else inc_total existingIncome),
                inc_sources = finalSources, inc_updatedAt = now\<rparr>"
    and c': "c' = set_income_month c userId month
               ((if tot \<noteq> JUndefined
                 then (existingIncome\<lparr>inc_total :=
                         (if tot \<noteq> JUndefined then num_of tot else inc_total existingIncome)\<rparr>)
                 else existingIncome)
                  \<lparr>inc_sources := finalSources, inc_updatedAt := now\<rparr>)"
    by (simp add: updateIncome_def Let_def check_sources_not_sent update_final_sources_not_sent
        split: if_splits option.splits sum.splits)
  from pres have given: "tot \<noteq> JUndefined \<or> sources \<noteq> JUndefined"
    by auto
  have "sum_values finalSources
          = (if tot \<noteq> JUndefined then num_of tot else inc_total existingIncome)"
    using update_final_sources_sum [OF fs given check_sources_None [OF chk]] assms(2,3) ex
    by simp
  then show ?thesis
    using r c' by (auto simp: find_income_def set_income_month_def split: option.splits)
qed

text \<open>
  Once the presence and type checks are passed and the store is reachable, \<open>updateIncome\<close>
  answers 404 exactly when the month has no record.
\<close>

lemma updateIncome_not_found_iff:
  assumes "is_month month" and "reachable c"
      and "truthy tot \<or> truthy sources"
      and "tot = JUndefined \<or> (typeof tot = TNumber \<and> 0 \<le> num_of tot)"
      and "check_sources sources = None"
  shows "fst (updateIncome c now userId month tot sources)
           = Err 404 ''No income record found for this month''
         \<longleftrightarrow> find_income c userId month = None"
  using assms
  by (auto simp: updateIncome_def Let_def update_final_sources_def
      split: option.splits sum.splits if_splits)

text \<open>
  Claim C1: after every successful income write the values of the stored sources sum to the
  stored total. The code does not keep this. \<open>updateIncome\<close> with only a total sums the
  existing sources including an earlier synthesized \<open>miscellaneous\<close>, and then replaces
  that key by the new shortfall instead of adding to it: raising the total of
  \<open>{total: 75000, sources: {salary: 65000, miscellaneous: 10000}}\<close> to 80000 succeeds and
  stores \<open>{salary: 65000, miscellaneous: 5000}\<close>, which sums to 70000.
\<close>

theorem updateIncome_miscellaneous_counted_then_replaced:
  "fst (updateIncome income_january 1 ''u1'' ''2024-01'' (JNum 80000) JUndefined)
     = Sent 200 \<lparr>inc_total = 80000,
                  inc_sources = [(''salary'', 65000), (''miscellaneous'', 5000)],
                  inc_updatedAt = 1\<rparr>
   \<and> find_income (snd (updateIncome income_january 1 ''u1'' ''2024-01'' (JNum 80000) JUndefined))
         ''u1'' ''2024-01''
     = Some \<lparr>inc_total = 80000,
             inc_sources = [(''salary'', 65000), (''miscellaneous'', 5000)],
             inc_updatedAt = 1\<rparr>"
  by (simp add: income_defs income_january_def no_income_def is_month_2024_01)

theorem updateIncome_miscellaneous_counted_then_replaced_witness:
  "\<exists>r. find_income (snd (updateIncome income_january 1 ''u1'' ''2024-01'' (JNum 80000) JUndefined))
          ''u1'' ''2024-01'' = Some r
       \<and> inc_total r = 80000 \<and> sum_values (inc_sources r) = 70000"
  using updateIncome_miscellaneous_counted_then_replaced by (simp add: sum_values_def)

text \<open>
  The same collision in \<open>setIncome\<close>, when the submitted sources already hold a key
  \<open>miscellaneous\<close>: its value is counted in the sum and then overwritten.
\<close>

lemma setIncome_miscellaneous_key_overwritten:
  "fst (setIncome no_income 0 ''u1'' (JStr ''2024-01'') (JNum 100)
          (JObj [(''salary'', JNum 50), (''miscellaneous'', JNum 20)]))
     = Sent 201 \<lparr>inc_total = 100,
                  inc_sources = [(''salary'', 50), (''miscellaneous'', 30)],
                  inc_updatedAt = 0\<rparr>"
  by (simp add: income_defs no_income_def is_month_2024_01)

text \<open>
  Claim C4: \<open>updateIncome\<close> rejects a call for missing arguments only when neither \<open>total\<close>
  nor \<open>sources\<close> is present, so that a call with only \<open>total = 0\<close> goes on to the existence
  check. The code tests \<open>!total && !sources\<close>, and \<open>0\<close> is falsy: the call with only
  \<open>total = 0\<close> is answered 400 "either total or sources must be provided for update",
  whatever the store holds, although the next check of the handler admits every
  non-negative total.
\<close>

theorem updateIncome_total_zero_rejected_as_missing:
  "is_month month \<Longrightarrow>
     updateIncome c now userId month (JNum 0) JUndefined
       = (Err 400 ''either total or sources must be provided for update'', c)"
  by (simp add: updateIncome_def)

theorem updateIncome_total_zero_rejected_as_missing_witness:
  "is_month ''2024-01'' \<and> find_income income_january ''u1'' ''2024-01'' \<noteq> None
   \<and> updateIncome income_january 1 ''u1'' ''2024-01'' (JNum 0) JUndefined
       = (Err 400 ''either total or sources must be provided for update'', income_january)"
  using updateIncome_total_zero_rejected_as_missing [of "''2024-01''" income_january 1 "''u1''"]
  by (simp add: is_month_2024_01 income_january_stored)

text \<open>
  Claim C10: \<open>deleteIncome\<close> reports success whenever the user has an income document, also
  when that document has no record for the month (the unset then changes nothing), and
  answers 404 only when the user has no document at all.
\<close>

theorem deleteIncome_matches_user_document_only:
  assumes "is_month month" and "reachable c"
  shows "fst (deleteIncome c userId month)
           = (case docs c userId of
                None \<Rightarrow> Err 404 ''No income records found for user''
              | Some d \<Rightarrow> Sent 200 ''income record deleted successfully'')
         \<and> (find_income c userId month = None
              \<longrightarrow> docs (snd (deleteIncome c userId month)) = docs c)
         \<and> find_income (snd (deleteIncome c userId month)) userId month = None"
  using assms
  by (auto simp: deleteIncome_def unset_income_month_def find_income_def fun_upd_idem
           split: option.splits Option.bind_splits)

theorem deleteIncome_matches_user_document_only_witness:
  "is_month ''2024-02'' \<and> reachable income_january
   \<and> find_income income_january ''u1'' ''2024-02'' = None
   \<and> fst (deleteIncome income_january ''u1'' ''2024-02'')
       = Sent 200 ''income record deleted successfully''
   \<and> docs (snd (deleteIncome income_january ''u1'' ''2024-02'')) = docs income_january"
proof -
  have m: "is_month ''2024-02''"
    by (simp add: is_month_def digit_def)
  have r: "reachable income_january"
    by (simp add: income_defs income_january_def no_income_def is_month_2024_01)
  have d: "docs income_january ''u1'' \<noteq> None"
    by (simp add: income_defs income_january_def no_income_def is_month_2024_01)
  have f: "find_income income_january ''u1'' ''2024-02'' = None"
    by (simp add: income_defs income_january_def no_income_def is_month_2024_01)
  show ?thesis
    using deleteIncome_matches_user_document_only [OF m r, of "''u1''"] m r d f
    by (auto split: option.splits)
qed

subsection \<open>Entries\<close>

lemma validate_entries_ok:
  "validate_entries es = EntryOk \<longleftrightarrow> (\<forall>e \<in> set es. check_entry e = EntryOk)"
  by (induction es) (auto split: entry_check.splits)

lemma stored_entries_push:
  "stored_entries (push_entries c userId yearMonth day es) userId yearMonth day
     = stored_entries c userId yearMonth day @ es"
  by (auto simp: stored_entries_def push_entries_def Let_def map_of_obj_set
           split: option.splits Option.bind_splits)

text \<open>
  Claim C9, as stated: a request with a negative amount is rejected and nothing is stored.
  The schema check of \<open>add-user-entries\<close> tests the type of \<open>amount\<close> only, so the request
  below is answered 201 and an entry of amount \<open>-5\<close> is stored.
\<close>

theorem add_user_entries_stores_negative_amount:
  "fst (add_user_entries no_entries ''u1'' (JArr [refund]) (JStr ''2024-01-15''))
     = Sent 201 ''entries added''
   \<and> stored_entries (snd (add_user_entries no_entries ''u1'' (JArr [refund]) (JStr ''2024-01-15'')))
         ''u1'' ''2024-01'' ''15''
     = [\<lparr>e_code = ''FOD-GRO'', e_amount = - 5, e_item = ''refund'', e_confidence = None\<rparr>]"
  by (simp add: entries_defs refund_def is_date_2024_01_15)

text \<open>
  Claim C9, amended: the operation validates the shape of every submitted entry, not the sign
  of its amount. If any entry of the list fails the schema check (an object whose \<open>code\<close> and
  \<open>item\<close> are strings, whose \<open>amount\<close> is a number and whose \<open>confidence\<close> is absent or a
  number) the whole request is refused and the store is left as it was; if all pass, with a
  valid date and a reachable store, the request is answered 201, the entries are appended to
  the day's list, and each stored amount is a number.
\<close>

theorem add_user_entries_schema_gate:
  "((\<exists>e \<in> set es. check_entry e \<noteq> EntryOk) \<longrightarrow>
       snd (add_user_entries c userId (JArr es) date) = c
       \<and> (fst (add_user_entries c userId (JArr es) date) = Unhandled
            \<or> (\<exists>message. fst (add_user_entries c userId (JArr es) date) = Err 400 message)))
   \<and> (es \<noteq> [] \<and> is_date d \<and> reachable c \<and> (\<forall>e \<in> set es. check_entry e = EntryOk) \<longrightarrow>
       fst (add_user_entries c userId (JArr es) (JStr d)) = Sent 201 ''entries added''
       \<and> stored_entries (snd (add_user_entries c userId (JArr es) (JStr d)))
             userId (take 7 d) (drop 8 d)
           = stored_entries c userId (take 7 d) (drop 8 d) @ map entry_of es
       \<and> (\<forall>e \<in> set es. typeof (get_prop e ''amount'') = TNumber))"
proof (intro conjI impI)
  assume bad: "\<exists>e \<in> set es. check_entry e \<noteq> EntryOk"
  then have v: "validate_entries es \<noteq> EntryOk"
    by (simp add: validate_entries_ok)
  from bad have ne: "es \<noteq> []"
    by auto
  from v ne show "snd (add_user_entries c userId (JArr es) date) = c"
    by (cases "validate_entries es") (auto simp: add_user_entries_def)
  from v ne show "fst (add_user_entries c userId (JArr es) date) = Unhandled
            \<or> (\<exists>message. fst (add_user_entries c userId (JArr es) date) = Err 400 message)"
    by (cases "validate_entries es") (auto simp: add_user_entries_def)
next
  assume a: "es \<noteq> [] \<and> is_date d \<and> reachable c \<and> (\<forall>e \<in> set es. check_entry e = EntryOk)"
  then have v: "validate_entries es = EntryOk"
    by (simp add: validate_entries_ok)
  from a have dne: "d \<noteq> []"
    by (auto simp: is_date_def)
  from a v dne show "fst (add_user_entries c userId (JArr es) (JStr d)) = Sent 201 ''entries added''"
    by (simp add: add_user_entries_def)
  from a v dne show "stored_entries (snd (add_user_entries c userId (JArr es) (JStr d)))
             userId (take 7 d) (drop 8 d)
           = stored_entries c userId (take 7 d) (drop 8 d) @ map entry_of es"
    by (simp add: add_user_entries_def stored_entries_push)
  from a show "\<forall>e \<in> set es. typeof (get_prop e ''amount'') = TNumber"
    by (auto simp: check_entry_def split: if_splits)
qed

theorem add_user_entries_schema_gate_witness:
  "check_entry mistyped \<noteq> EntryOk
   \<and> snd (add_user_entries no_entries ''u1'' (JArr [refund, mistyped]) (JStr ''2024-01-15''))
       = no_entries
   \<and> check_entry refund = EntryOk \<and> is_date ''2024-01-15'' \<and> reachable no_entries
   \<and> fst (add_user_entries no_entries ''u1'' (JArr [refund]) (JStr ''2024-01-15''))
       = Sent 201 ''entries added''
   \<and> stored_entries (snd (add_user_entries no_entries ''u1'' (JArr [refund]) (JStr ''2024-01-15'')))
         ''u1'' ''2024-01'' ''15''
       = [entry_of refund]"
proof -
  have bad: "check_entry mistyped \<noteq> EntryOk"
    by (simp add: check_entry_def mistyped_def)
  have good: "check_entry refund = EntryOk"
    by (simp add: check_entry_def refund_def)
  have r: "reachable no_entries"
    by (simp add: no_entries_def)
  have old: "stored_entries no_entries ''u1'' ''2024-01'' ''15'' = []"
    by (simp add: stored_entries_def no_entries_def)
  show ?thesis
    using add_user_entries_schema_gate
            [of "[refund, mistyped]" no_entries "''u1''" "JStr ''2024-01-15''" "''2024-01-15''"]
          add_user_entries_schema_gate
            [of "[refund]" no_entries "''u1''" "JStr ''2024-01-15''" "''2024-01-15''"]
          bad good r old is_date_2024_01_15
    by simp
qed

subsection \<open>Budget reconciliation\<close>

text \<open>Only categories that pass the budget test receive a spend bucket.\<close>

lemma add_expense_keys:
  "fst ` set (fst (add_expense b taxonomy acc ent))
     \<subseteq> fst ` set (fst acc) \<union> {k. has_budget (categories b) k}"
  by (auto simp: add_expense_def Let_def fst_set_obj_set split: option.splits)

text \<open>Every entry adds its amount to exactly one bucket.\<close>

lemma add_expense_sum:
  "sum_values (fst (add_expense b taxonomy acc ent)) + snd (add_expense b taxonomy acc ent)
     = sum_values (fst acc) + snd acc + e_amount ent"
  by (auto simp: add_expense_def Let_def sum_values_accumulate sum_values_accumulate_zero
      split: option.splits)

lemma foldl_add_expense_keys:
  "fst ` set (fst (foldl (add_expense b taxonomy) acc es))
     \<subseteq> fst ` set (fst acc) \<union> {k. has_budget (categories b) k}"
proof (induction es arbitrary: acc)
  case Nil
  then show ?case
    by simp
next
  case (Cons e es)
  show ?case
    using Cons.IH [of "add_expense b taxonomy acc e"] add_expense_keys [of b taxonomy acc e]
    by auto
qed

lemma foldl_add_expense_sum:
  "sum_values (fst (foldl (add_expense b taxonomy) acc es))
     + snd (foldl (add_expense b taxonomy) acc es)
   = sum_values (fst acc) + snd acc + sum_list (map e_amount es)"
proof (induction es arbitrary: acc)
  case Nil
  then show ?case
    by simp
next
  case (Cons e es)
  show ?case
    using Cons.IH [of "add_expense b taxonomy acc e"] add_expense_sum [of b taxonomy acc e]
    by simp
qed

lemma foldl_add_day_keys:
  "fst ` set (fst (foldl (add_day b taxonomy) acc ds))
     \<subseteq> fst ` set (fst acc) \<union> {k. has_budget (categories b) k}"
proof (induction ds arbitrary: acc)
  case Nil
  then show ?case
    by simp
next
  case (Cons d ds)
  have step: "fst ` set (fst (add_day b taxonomy acc d))
                \<subseteq> fst ` set (fst acc) \<union> {k. has_budget (categories b) k}"
    using foldl_add_expense_keys [of b taxonomy acc] by (cases d) (simp_all add: add_day_def)
  show ?case
    using Cons.IH [of "add_day b taxonomy acc d"] step by auto
qed

lemma foldl_add_day_sum:
  "sum_values (fst (foldl (add_day b taxonomy) acc ds)) + snd (foldl (add_day b taxonomy) acc ds)
     = sum_values (fst acc) + snd acc + sum_list (map day_total ds)"
proof (induction ds arbitrary: acc)
  case Nil
  then show ?case
    by simp
next
  case (Cons d ds)
  have step: "sum_values (fst (add_day b taxonomy acc d)) + snd (add_day b taxonomy acc d)
                = sum_values (fst acc) + snd acc + day_total d"
    using foldl_add_expense_sum [of b taxonomy acc]
    by (cases d) (simp_all add: add_day_def day_total_def)
  show ?case
    using Cons.IH [of "add_day b taxonomy acc d"] step by simp
qed

lemma spend_buckets_keys:
  "fst ` set (fst (spend_buckets b taxonomy monthlyEntries)) \<subseteq> {k. has_budget (categories b) k}"
  using foldl_add_day_keys [of b taxonomy "([], 0)" "map snd monthlyEntries"]
  by (simp add: spend_buckets_def)

lemma spend_buckets_sum:
  "sum_values (fst (spend_buckets b taxonomy monthlyEntries))
     + snd (spend_buckets b taxonomy monthlyEntries)
   = sum_list (map (day_total \<circ> snd) monthlyEntries)"
  using foldl_add_day_sum [of b taxonomy "([], 0)" "map snd monthlyEntries"]
  by (simp add: spend_buckets_def sum_values_def)

lemma foldl_expenses_day:
  "foldl (\<lambda>t ent. t + (if e_amount ent \<noteq> 0 then e_amount ent else 0)) a es
     = a + sum_list (map e_amount es)"
  by (induction es arbitrary: a) simp_all

lemma foldl_expenses_month:
  "foldl (\<lambda>totalExpenses dayData.
            case dayData of
              None \<Rightarrow> totalExpenses
            | Some es \<Rightarrow>
                foldl (\<lambda>t ent. t + (if e_amount ent \<noteq> 0 then e_amount ent else 0))
                  totalExpenses es) a ds
     = a + sum_list (map day_total ds)"
  by (induction ds arbitrary: a)
     (simp_all add: foldl_expenses_day day_total_def split: option.splits)

text \<open>
  What every result of \<open>remaining\<close> satisfies: the total remaining is the budget's total less
  the total spent, and the total spent is the sum of all amounts of the month, the one the
  savings engine computes. The returned buckets sum to the total spent whenever the budget
  allocates nothing under the key \<open>MIS\<close>.
\<close>

lemma remaining_totals:
  assumes "remaining userBudgets userEntries taxonomy userId month = Sent code r"
  shows "totalRemaining r = budget_total (originalBudget r) - totalSpent r
         \<and> totalSpent r = calculateMonthlyExpenses userEntries userId month
         \<and> (\<not> has_budget (categories (originalBudget r)) ''MIS''
              \<longrightarrow> sum_values (expensesByCategory r) = totalSpent r)"
proof -
  from assms obtain monthlyBudget where
    b: "Option.bind (docs userBudgets userId) (\<lambda>d. d month) = Some monthlyBudget"
    by (auto simp: remaining_def split: if_splits option.splits)
  define monthlyEntries where
    "monthlyEntries = (case Option.bind (docs userEntries userId) (\<lambda>d. d month) of
                         None \<Rightarrow> [] | Some days \<Rightarrow> days)"
  define buckets where "buckets = spend_buckets monthlyBudget taxonomy monthlyEntries"
  from assms b have r:
    "originalBudget r = monthlyBudget"
    "totalSpent r = sum_values (fst buckets) + snd buckets"
    "totalRemaining r = budget_total monthlyBudget - (sum_values (fst buckets) + snd buckets)"
    "expensesByCategory r = obj_set ''MIS'' (snd buckets) (fst buckets)"
    by (auto simp: remaining_def Let_def buckets_def monthlyEntries_def split: if_splits)
  have spent: "totalSpent r = calculateMonthlyExpenses userEntries userId month"
    using spend_buckets_sum [of monthlyBudget taxonomy monthlyEntries]
    by (simp add: r buckets_def calculateMonthlyExpenses_def monthlyEntries_def [symmetric]
          foldl_expenses_month Let_def)
  have mis: "sum_values (expensesByCategory r) = totalSpent r"
    if "\<not> has_budget (categories (originalBudget r)) ''MIS''"
  proof -
    from that have "''MIS'' \<notin> fst ` set (fst buckets)"
      using spend_buckets_keys [of monthlyBudget taxonomy monthlyEntries]
      by (auto simp: r buckets_def)
    then show ?thesis
      by (simp add: r sum_values_obj_set_fresh)
  qed
  show ?thesis
    using r spent mis by simp
qed

text \<open>
  The bucket of one entry, by the allocated amounts: the entry's own code when its allocation
  is not 0, else its parent when the parent's allocation is not 0, else miscellaneous.
\<close>

lemma add_expense_exact:
  "map_of (categories b) (e_code ent) = Some a \<Longrightarrow> a \<noteq> 0 \<Longrightarrow>
     add_expense b taxonomy acc ent
       = (obj_set (e_code ent) (or_zero (fst acc) (e_code ent) + e_amount ent) (fst acc), snd acc)"
  by (simp add: add_expense_def has_budget_def Let_def)

lemma add_expense_parent:
  "\<not> has_budget (categories b) (e_code ent) \<Longrightarrow> parent_of taxonomy (e_code ent) = Some p \<Longrightarrow>
   p \<noteq> [] \<Longrightarrow> map_of (categories b) p = Some a \<Longrightarrow> a \<noteq> 0 \<Longrightarrow>
     add_expense b taxonomy acc ent
       = (obj_set p (or_zero (fst acc) p + e_amount ent) (fst acc), snd acc)"
  by (simp add: add_expense_def has_budget_def Let_def)

lemma add_expense_miscellaneous:
  "\<not> has_budget (categories b) (e_code ent) \<Longrightarrow>
   (\<forall>p. parent_of taxonomy (e_code ent) = Some p \<longrightarrow> p = [] \<or> \<not> has_budget (categories b) p) \<Longrightarrow>
     add_expense b taxonomy acc ent = (fst acc, snd acc + e_amount ent)"
  by (auto simp: add_expense_def Let_def split: option.splits)

text \<open>
  Claim C2: in every result of \<open>remaining\<close>, \<open>totalSpent\<close> is the sum of the per-category
  spend buckets including \<open>MIS\<close>. The code computes \<open>totalSpent\<close> from its buckets, but the
  mapping it returns is \<open>{...expensesByCategory, 'MIS': miscellaneousExpenses}\<close>: when the
  budget declares the taxonomy's own category \<open>MIS\<close>, the spend accumulated under that key is
  overwritten by the miscellaneous expenses (and so is its remaining budget). Below the
  returned buckets sum to 300 while \<open>totalSpent\<close> is 500.
\<close>

theorem remaining_mis_bucket_overwritten:
  "remaining (budgets_of \<lparr>budget_total = 3000, categories = [(''FOD'', 1000), (''MIS'', 500)]\<rparr>)
     (entries_on [groceries, sundries]) taxonomy_sample ''u1'' ''2024-01''
   = Sent 200
       \<lparr>r_month = ''2024-01'',
        originalBudget = \<lparr>budget_total = 3000, categories = [(''FOD'', 1000), (''MIS'', 500)]\<rparr>,
        totalSpent = 500,
        totalRemaining = 2500,
        remainingBudgets = [(''FOD'', 700), (''MIS'', 1500)],
        expensesByCategory = [(''FOD'', 300), (''MIS'', 0)]\<rparr>"
  by (simp add: remaining_defs groceries_def sundries_def is_month_2024_01)

theorem remaining_mis_bucket_overwritten_witness:
  "\<exists>r. remaining (budgets_of \<lparr>budget_total = 3000, categories = [(''FOD'', 1000), (''MIS'', 500)]\<rparr>)
          (entries_on [groceries, sundries]) taxonomy_sample ''u1'' ''2024-01'' = Sent 200 r
       \<and> totalSpent r = 500 \<and> sum_values (expensesByCategory r) = 300"
  using remaining_mis_bucket_overwritten by (simp add: sum_values_def)

text \<open>
  Claim C3: an entry whose code is an exact key of the budget's categories is accumulated
  into that bucket, also when the category's allocated amount is 0. The code tests
  \<open>if (monthlyBudget.categories[categoryCode])\<close>, the amount and not the presence of the
  key, so a category allocated 0 is passed over: the spend on \<open>FOD-GRO\<close> (declared with 0)
  goes to its parent \<open>FOD\<close>, and \<open>FOD-GRO\<close> shows a remaining budget of 0 instead of an
  overspend of 300.
\<close>

theorem remaining_zero_allocation_falls_through:
  "remaining (budgets_of \<lparr>budget_total = 3000, categories = [(''FOD'', 1000), (''FOD-GRO'', 0)]\<rparr>)
     (entries_on [groceries]) taxonomy_sample ''u1'' ''2024-01''
   = Sent 200
       \<lparr>r_month = ''2024-01'',
        originalBudget = \<lparr>budget_total = 3000, categories = [(''FOD'', 1000), (''FOD-GRO'', 0)]\<rparr>,
        totalSpent = 300,
        totalRemaining = 2700,
        remainingBudgets = [(''FOD'', 700), (''FOD-GRO'', 0), (''MIS'', 2000)],
        expensesByCategory = [(''FOD'', 300), (''MIS'', 0)]\<rparr>"
  by (simp add: remaining_defs groceries_def is_month_2024_01)

theorem remaining_zero_allocation_falls_through_witness:
  "\<exists>r. remaining (budgets_of \<lparr>budget_total = 3000, categories = [(''FOD'', 1000), (''FOD-GRO'', 0)]\<rparr>)
          (entries_on [groceries]) taxonomy_sample ''u1'' ''2024-01'' = Sent 200 r
       \<and> map_of (categories (originalBudget r)) ''FOD-GRO'' = Some 0
       \<and> map_of (expensesByCategory r) ''FOD-GRO'' = None
       \<and> map_of (expensesByCategory r) ''FOD'' = Some 300"
  using remaining_zero_allocation_falls_through by simp

text \<open>A category allocated 0 that has no budgeted parent: its spend goes to \<open>MIS\<close>.\<close>

lemma remaining_zero_allocation_to_miscellaneous:
  "remaining (budgets_of \<lparr>budget_total = 3000, categories = [(''MIS'', 0)]\<rparr>)
     (entries_on [sundries]) taxonomy_sample ''u1'' ''2024-01''
   = Sent 200
       \<lparr>r_month = ''2024-01'',
        originalBudget = \<lparr>budget_total = 3000, categories = [(''MIS'', 0)]\<rparr>,
        totalSpent = 200,
        totalRemaining = 2800,
        remainingBudgets = [(''MIS'', 2800)],
        expensesByCategory = [(''MIS'', 200)]\<rparr>"
  by (simp add: remaining_defs sundries_def is_month_2024_01)

subsection \<open>Savings\<close>






subsection \<open>Chat orchestrator\<close>

lemma digit_val_digit_char: "d < 10 \<Longrightarrow> digit_val (digit_char d) = d"
proof -
  assume "d < 10"
  then have "d = 0 \<or> d = 1 \<or> d = 2 \<or> d = 3 \<or> d = 4 \<or> d = 5 \<or> d = 6 \<or> d = 7 \<or> d = 8 \<or> d = 9"
    by arith
  then show ?thesis
    by (elim disjE) (simp_all add: digit_val_def digit_char_def)
qed

lemma read_nat_show_nat: "read_nat (show_nat n) = n"
proof (induction n rule: show_nat.induct)
  case (1 n)
  show ?case
  proof (cases "n < 10")
    case True
    then show ?thesis
      by (subst show_nat.simps) (simp add: read_nat_def digit_val_digit_char)
  next
    case False
    with 1 have ih: "read_nat (show_nat (n div 10)) = n div 10"
      by simp
    have "read_nat (show_nat n)
            = 10 * read_nat (show_nat (n div 10)) + digit_val (digit_char (n mod 10))"
      using False by (subst show_nat.simps) (simp add: read_nat_def)
    also have "\<dots> = 10 * (n div 10) + n mod 10"
      by (simp add: ih digit_val_digit_char)
    finally show ?thesis
      by simp
  qed
qed

lemma show_nat_inj: "show_nat m = show_nat n \<Longrightarrow> m = n"
  by (metis read_nat_show_nat)

lemma result_key_inj: "result_key m = result_key n \<Longrightarrow> m = n"
  using show_nat_inj by (fastforce simp: result_key_def)

lemma show_nat_1: "show_nat (Suc 0) = ''1''"
  by (subst show_nat.simps) (simp add: digit_char_def)

lemma show_nat_2: "show_nat (Suc (Suc 0)) = ''2''"
  by (subst show_nat.simps) (simp add: digit_char_def)

text \<open>A key written by the \<open>forEach\<close> is not overwritten by a later round.\<close>

lemma combine_other:
  "(\<forall>j < length rs. key \<noteq> result_key (index + j)) \<Longrightarrow>
     map_of (combine index rs acc) key = map_of acc key"
proof (induction rs arbitrary: index acc)
  case Nil
  then show ?case
    by simp
next
  case (Cons r rs)
  have k0: "key \<noteq> result_key index"
    using Cons.prems by force
  have rest: "\<forall>j < length rs. key \<noteq> result_key (Suc index + j)"
    using Cons.prems by force
  show ?case
    using Cons.IH [OF rest] k0 by (simp add: map_of_obj_set_other)
qed

lemma combine_nth:
  "k < length rs \<Longrightarrow>
     map_of (combine index rs acc) (result_key (index + k)) = Some (result_json (rs ! k))"
proof (induction rs arbitrary: index acc k)
  case Nil
  then show ?case
    by simp
next
  case (Cons r rs)
  show ?case
  proof (cases k)
    case 0
    have "\<forall>j < length rs. result_key index \<noteq> result_key (Suc index + j)"
      using result_key_inj by fastforce
    then show ?thesis
      using 0 combine_other [of rs "result_key index" "Suc index"]
      by (simp add: map_of_obj_set)
  next
    case (Suc k')
    then have "k' < length rs"
      using Cons.prems by simp
    from Cons.IH [OF this, of "Suc index"] show ?thesis
      using Suc by simp
  qed
qed

text \<open>Whatever the schedule, every pending branch settles exactly once.\<close>

lemma mset_complete: "mset (complete sched bs) = mset bs"
proof (induction sched bs rule: complete.induct)
  case (1 sched)
  then show ?case
    by simp
next
  case (2 b bs)
  then show ?case
    by simp
next
  case (3 n sched b bs)
  define xs where "xs = b # bs"
  define k where "k = n mod length xs"
  have kl: "k < length xs"
    by (simp add: k_def xs_def)
  have ih: "mset (complete sched (take k xs @ drop (Suc k) xs))
              = mset (take k xs @ drop (Suc k) xs)"
    using 3 [of k] by (simp add: k_def xs_def)
  have "mset xs = mset (take k xs @ xs ! k # drop (Suc k) xs)"
    using id_take_nth_drop [OF kl] by simp
  then have "mset xs = add_mset (xs ! k) (mset (take k xs @ drop (Suc k) xs))"
    by simp
  then show ?case
    using ih by (simp add: k_def xs_def Let_def)
qed

lemma complete_in_order: "complete [] bs = bs"
  by (induction bs) simp_all

lemma complete_step:
  "k < length bs \<Longrightarrow>
     complete (k # sched) bs = bs ! k # complete sched (take k bs @ drop (Suc k) bs)"
  by (cases bs) (simp_all add: Let_def)

text \<open>Every order of settling is the work of some schedule.\<close>

lemma complete_any_order: "mset ys = mset bs \<Longrightarrow> \<exists>sched. complete sched bs = ys"
proof (induction ys arbitrary: bs)
  case Nil
  then show ?case
    by simp
next
  case (Cons y ys)
  then have "y \<in> set bs"
    by (metis list.set_intros(1) set_mset_mset)
  then obtain k where k: "k < length bs" "bs ! k = y"
    by (auto simp: in_set_conv_nth)
  define bs' where "bs' = take k bs @ drop (Suc k) bs"
  have "mset bs = add_mset y (mset bs')"
    using id_take_nth_drop [OF k(1)] k(2)
    by (metis bs'_def mset.simps(2) mset_append union_mset_add_mset_right)
  with Cons.prems have "mset ys = mset bs'"
    by simp
  from Cons.IH [OF this] obtain sched where "complete sched bs' = ys"
    by blast
  then have "complete (k # sched) bs = y # ys"
    using complete_step [OF k(1)] k(2) by (simp add: bs'_def)
  then show ?case
    by blast
qed

lemma mset_thrown_pending:
  "mset (thrown bs) + mset (map (settle net) (pending bs))
     = mset (map (\<lambda>(k, i, st). case st of Throws message \<Rightarrow> failed i message
                                | Awaits call \<Rightarrow> settle net (k, i, call)) bs)"
  by (induction bs rule: thrown.induct) simp_all

lemma started_records:
  "map (\<lambda>(k, i, st). case st of Throws message \<Rightarrow> failed i message
                       | Awaits call \<Rightarrow> settle net (k, i, call)) (started k is)
     = map (\<lambda>(k, i). branch_record net k i) (enumerate k is)"
  by (induction "is" arbitrary: k) (simp_all add: branch_record_def)

lemma mset_collect:
  "mset (collect net sched intents)
     = mset (map (\<lambda>(k, i). branch_record net k i) (enumerate 0 intents))"
proof -
  have "mset (collect net sched intents)
          = mset (thrown (started 0 intents))
            + mset (map (settle net) (pending (started 0 intents)))"
    by (simp add: collect_def mset_complete)
  also have "\<dots> = mset (map (\<lambda>(k, i, st). case st of Throws message \<Rightarrow> failed i message
                                | Awaits call \<Rightarrow> settle net (k, i, call)) (started 0 intents))"
    by (rule mset_thrown_pending)
  also have "\<dots> = mset (map (\<lambda>(k, i). branch_record net k i) (enumerate 0 intents))"
    by (simp only: started_records)
  finally show ?thesis .
qed

text \<open>
  When every intent issues a request and the requests settle in the order they were issued,
  the records are collected in the order of the list.
\<close>

lemma all_await_in_list_order:
  "\<forall>i \<in> set is. \<exists>call. start_branch i = Awaits call \<Longrightarrow>
     thrown (started k is) = []
     \<and> map (settle net) (pending (started k is))
         = map (\<lambda>(k, i). branch_record net k i) (enumerate k is)"
  by (induction "is" arbitrary: k) (auto simp: branch_record_def)

lemma collect_in_list_order:
  assumes "\<forall>i \<in> set intents. \<exists>call. start_branch i = Awaits call"
  shows "collect net [] intents = map (\<lambda>(k, i). branch_record net k i) (enumerate 0 intents)"
  using all_await_in_list_order [OF assms, of 0 net]
  by (simp add: collect_def complete_in_order)

lemma length_collect: "length (collect net sched intents) = length intents"
  using mset_collect [of net sched intents] by (metis size_mset length_map length_enumerate)

lemmas chat_defs =
  chat_def collect_def start_branch_def with_parameters_def destructurable_def settle_def
  failed_def intent_json_def result_key_def result_json_def Let_def

text \<open>
  Claim C7: when the resolver returns an empty list, or exactly one intent named
  \<open>unknown\<close>, the handler answers 400 with the fixed clarification reply, issues no
  downstream request and collects no result.
\<close>

theorem chat_rejects_without_dispatch:
  assumes "destructurable reqBody"
      and "get_prop reqBody ''message'' = JStr message" and "message \<noteq> []"
      and "extractIntent message = []
           \<or> (\<exists>p. extractIntent message = [\<lparr>intent = ''unknown'', parameters = p\<rparr>])"
  shows "chat extractIntent generateResponse generateMultiResponse net sched reqBody
           = \<lparr>status = 400,
              body = JObj [(''error'', JStr ''No valid intent could be determined from your question''),
                           (''reply'', JStr clarification)],
              calls = [], collected = []\<rparr>"
  using assms by (auto simp: chat_def)

theorem chat_rejects_without_dispatch_witness:
  "destructurable chat_request \<and> get_prop chat_request ''message'' = JStr ''question''
   \<and> chat (\<lambda>message. [\<lparr>intent = ''unknown'', parameters = JObj []\<rparr>])
        (\<lambda>message payload. ''reply'') (\<lambda>message results. ''reply'') network_sample [] chat_request
       = \<lparr>status = 400,
          body = JObj [(''error'', JStr ''No valid intent could be determined from your question''),
                       (''reply'', JStr clarification)],
          calls = [], collected = []\<rparr>
   \<and> chat (\<lambda>message. []) (\<lambda>message payload. ''reply'') (\<lambda>message results. ''reply'')
        network_sample [] chat_request
       = \<lparr>status = 400,
          body = JObj [(''error'', JStr ''No valid intent could be determined from your question''),
                       (''reply'', JStr clarification)],
          calls = [], collected = []\<rparr>"
  using chat_rejects_without_dispatch
          [where reqBody = chat_request and message = "''question''"
             and extractIntent = "\<lambda>message. [\<lparr>intent = ''unknown'', parameters = JObj []\<rparr>]"
             and generateResponse = "\<lambda>message payload. ''reply''"
             and generateMultiResponse = "\<lambda>message results. ''reply''"
             and net = network_sample and sched = "[]"]
        chat_rejects_without_dispatch
          [where reqBody = chat_request and message = "''question''"
             and extractIntent = "\<lambda>message. []"
             and generateResponse = "\<lambda>message payload. ''reply''"
             and generateMultiResponse = "\<lambda>message results. ''reply''"
             and net = network_sample and sched = "[]"]
  by (simp add: chat_request_def destructurable_def)



text \<open>
  Claim C6, as stated: \<open>resultK\<close> holds the K-th intent of the resolver's list. The records
  are pushed as the branches finish, and a branch that throws before its first \<open>await\<close>
  finishes while \<open>map\<close> is still running: for the list \<open>[getAllBudgets, transferMoney]\<close>
  the unsupported second intent is collected first, so \<open>result1\<close> holds \<open>transferMoney\<close>
  although the first intent of the list is \<open>getAllBudgets\<close>.
\<close>

theorem chat_result1_is_not_first_intent:
  "get_prop (get_prop (body (chat (\<lambda>message. two_intents) (\<lambda>message payload. ''reply'')
       (\<lambda>message results. ''reply'') network_sample [] chat_request)) ''data'') ''result1''
     = JObj [(''intent'', JStr ''transferMoney''),
             (''data'', JObj [(''error'', JBool True), (''message'', JStr ''Unsupported intent'')])]
   \<and> intent (two_intents ! 0) = ''getAllBudgets''"
  by (simp add: chat_defs two_intents_def network_sample_def chat_request_def show_nat_1 show_nat_2)

text \<open>
  Claim C6, amended: when more than one intent is dispatched, the response data is one keyed
  structure in which, for every K up to the number of intents, \<open>resultK\<close> holds the intent
  name and the data of the K-th collected record. The records are collected in the order in
  which the branches finish (first the branches that fail before issuing a request, in list
  order, then the others as their requests settle), and they are a rearrangement of the
  records of the resolver's list.
\<close>

theorem chat_results_keyed_in_completion_order:
  assumes "destructurable reqBody"
      and "get_prop reqBody ''message'' = JStr message" and "message \<noteq> []"
      and "extractIntent message = intents"
      and "2 \<le> length intents" and "k < length intents"
  shows "(let out = chat extractIntent generateResponse generateMultiResponse net sched reqBody in
          get_prop (get_prop (body out) ''data'') (''result'' @ show_nat (k + 1))
            = JObj [(''intent'', JStr (intent (res_intent (collected out ! k)))),
                    (''data'', res_data (collected out ! k))]
          \<and> collected out
              = thrown (started 0 intents)
                @ map (settle net) (complete sched (pending (started 0 intents)))
          \<and> mset (collected out)
              = mset (map (\<lambda>(k, i). branch_record net k i) (enumerate 0 intents)))"
proof -
  define out where
    "out = chat extractIntent generateResponse generateMultiResponse net sched reqBody"
  have n1: "length (collect net sched intents) \<noteq> 1"
    using assms by (simp add: length_collect)
  have dispatches: "\<not> (length intents = 0 \<or> (length intents = 1 \<and> intent (intents ! 0) = ''unknown''))"
    using assms by auto
  have c: "collected out = collect net sched intents"
    using assms dispatches n1 by (simp add: out_def chat_def Let_def)
  have d: "get_prop (body out) ''data'' = JObj (combine 0 (collect net sched intents) [])"
    using assms dispatches n1 by (simp add: out_def chat_def Let_def)
  have kl: "k < length (collect net sched intents)"
    using assms by (simp add: length_collect)
  have "get_prop (get_prop (body out) ''data'') (''result'' @ show_nat (k + 1))
          = result_json (collect net sched intents ! k)"
    using combine_nth [OF kl, of 0 "[]"] by (simp add: d result_key_def)
  then show ?thesis
    by (simp add: out_def [symmetric] Let_def c result_json_def mset_collect)
       (simp add: collect_def)
qed

theorem chat_results_keyed_in_completion_order_witness:
  "destructurable chat_request \<and> get_prop chat_request ''message'' = JStr ''question''
   \<and> 2 \<le> length two_intents
   \<and> get_prop (get_prop (body (chat (\<lambda>message. two_intents) (\<lambda>message payload. ''reply'')
         (\<lambda>message results. ''reply'') network_sample [] chat_request)) ''data'')
       (''result'' @ show_nat (1 + 1))
     = JObj [(''intent'', JStr ''getAllBudgets''), (''data'', JObj [(''budgets'', JObj [])])]"
proof -
  have h1: "destructurable chat_request"
    by (simp add: chat_request_def destructurable_def)
  have h2: "get_prop chat_request ''message'' = JStr ''question''"
    by (simp add: chat_request_def)
  have h3: "2 \<le> length two_intents"
    by (simp add: two_intents_def)
  have second:
    "collected (chat (\<lambda>message. two_intents) (\<lambda>message payload. ''reply'')
         (\<lambda>message results. ''reply'') network_sample [] chat_request) ! 1
       = \<lparr>res_intent = \<lparr>intent = ''getAllBudgets'', parameters = JObj []\<rparr>,
          res_data = JObj [(''budgets'', JObj [])], res_success = True\<rparr>"
    by (simp add: chat_def collect_def start_branch_def with_parameters_def destructurable_def
          settle_def failed_def Let_def two_intents_def network_sample_def chat_request_def)
  show ?thesis
    using chat_results_keyed_in_completion_order
            [where reqBody = chat_request and message = "''question''"
               and extractIntent = "\<lambda>message. two_intents" and intents = two_intents
               and k = 1 and generateResponse = "\<lambda>message payload. ''reply''"
               and generateMultiResponse = "\<lambda>message results. ''reply''"
               and net = network_sample and sched = "[]"]
          h1 h2 h3 second
    by (simp add: Let_def)
qed

end
